theory Spec2Isabelle
  imports Main
begin

section \<open>Shared vocabulary: byte strings, buffered channels, decimal rendering\<close>

text \<open>
  A Go \<^verbatim>\<open>[]byte\<close> is a list of bytes; \<^typ>\<open>char\<close> is a byte in HOL, so a byte string is a
  \<^typ>\<open>string\<close>.
\<close>

type_synonym bytes = string

text \<open>
  A buffered Go channel \<^verbatim>\<open>make(chan T, n)\<close>: the values waiting in it, oldest first, and
  its capacity. A send needs a free slot; \<open>None\<close> says that the send cannot proceed now
  (a blocking send waits there, a \<^verbatim>\<open>select\<close> with a \<^verbatim>\<open>default\<close> takes the default).
\<close>

record 'a chan =
  buffer :: "'a list"
  capacity :: nat

definition make_chan :: "nat \<Rightarrow> 'a chan" where
  "make_chan n = \<lparr>buffer = [], capacity = n\<rparr>"

definition chan_send :: "'a chan \<Rightarrow> 'a \<Rightarrow> 'a chan option" where
  "chan_send c x =
     (if length (buffer c) < capacity c then Some (c\<lparr>buffer := buffer c @ [x]\<rparr>) else None)"

definition chan_recv :: "'a chan \<Rightarrow> ('a \<times> 'a chan) option" where
  "chan_recv c = (case buffer c of [] \<Rightarrow> None | x # xs \<Rightarrow> Some (x, c\<lparr>buffer := xs\<rparr>))"

text \<open>The verb \<^verbatim>\<open>%d\<close> of \<^verbatim>\<open>fmt.Sprintf\<close>: a decimal numeral, with a minus sign when negative.\<close>

fun string_of_nat :: "nat \<Rightarrow> string" where
  "string_of_nat n =
     (if n < 10 then [char_of (48 + n)]
      else string_of_nat (n div 10) @ [char_of (48 + n mod 10)])"

declare string_of_nat.simps [simp del]

definition string_of_int :: "int \<Rightarrow> string" where
  "string_of_int i = (if i < 0 then CHR ''-'' # string_of_nat (nat (- i)) else string_of_nat (nat i))"

section \<open>The correlation router (router.go)\<close>

text \<open>
  \<^verbatim>\<open>RoutedMessage\<close> is a generated message type. The router writes its identifier and
  reply topic and reads its identifier, method and resource; what else a message
  carries is its body. An unset optional field is \<open>None\<close>, and the generated getters
  return the zero value for it.
\<close>

record RoutedMessage =
  rm_Id :: "string option"
  rm_ReplyTopic :: "string option"
  rm_Method :: "int option"
  rm_Resource :: "int option"
  rm_Body :: "bytes option"

definition GetId :: "RoutedMessage \<Rightarrow> string" where
  "GetId m = (case rm_Id m of None \<Rightarrow> [] | Some s \<Rightarrow> s)"

definition GetMethod :: "RoutedMessage \<Rightarrow> int" where
  "GetMethod m = (case rm_Method m of None \<Rightarrow> 0 | Some i \<Rightarrow> i)"

definition GetResource :: "RoutedMessage \<Rightarrow> int" where
  "GetResource m = (case rm_Resource m of None \<Rightarrow> 0 | Some i \<Rightarrow> i)"

text \<open>
  \<^verbatim>\<open>StandardRouter\<close>. The publisher is an interface; what the router does to it is the
  list of its \<^verbatim>\<open>Publish(topic, body)\<close> calls, oldest first. \<open>pendingRequests\<close> is the Go
  map from identifier to the waiter's one-slot channel. The mutex \<^verbatim>\<open>mu\<close> guards the three
  short critical sections (insert, lookup, delete); each is one atomic function below.
\<close>

record StandardRouter =
  published :: "(string \<times> bytes) list"
  router_topic :: string
  pendingRequests :: "string \<Rightarrow> RoutedMessage chan option"

datatype route_error = MARSHAL_ERROR | TIMEOUT

text \<open>
  \<^verbatim>\<open>Route\<close>, lines 25 to 41: stamp the message with the fresh identifier \<open>uuid\<close> (the value
  of \<^verbatim>\<open>CreateUUID()\<close>) and the router's reply topic, serialise it, register the waiter,
  publish. \<open>Marshal\<close> is the serialisation collaborator; \<open>None\<close> is its error.
\<close>

definition Route_register ::
  "(RoutedMessage \<Rightarrow> bytes option) \<Rightarrow> string \<Rightarrow> RoutedMessage \<Rightarrow> StandardRouter
     \<Rightarrow> (route_error + RoutedMessage) \<times> StandardRouter" where
  "Route_register Marshal uuid msg0 sr =
     (let msg = msg0\<lparr>rm_Id := Some uuid, rm_ReplyTopic := Some (router_topic sr)\<rparr> in
      case Marshal msg of
        None \<Rightarrow> (Inl MARSHAL_ERROR, sr)
      | Some payload \<Rightarrow>
          let responseChan = make_chan 1;
              sr1 = sr\<lparr>pendingRequests := (pendingRequests sr)(GetId msg \<mapsto> responseChan)\<rparr>;
              sr2 = sr1\<lparr>published := published sr1 @
                      [(string_of_int (GetMethod msg) @ ''_'' @ string_of_int (GetResource msg),
                        payload)]\<rparr>
          in (Inr msg, sr2))"

text \<open>
  The handler that \<^verbatim>\<open>NewStandardRouter\<close> subscribes on the reply topic (lines 71 to 88).
  It always returns the nil error; the result is that error and the router afterwards.
  The outer \<open>None\<close> is the one place where it can wait: the send on a waiter's channel
  whose slot is taken.
\<close>

definition reply_handler ::
  "(bytes \<Rightarrow> RoutedMessage option) \<Rightarrow> bytes \<Rightarrow> StandardRouter
     \<Rightarrow> (string option \<times> StandardRouter) option" where
  "reply_handler Unmarshal body sr =
     (case Unmarshal body of
        None \<Rightarrow> Some (None, sr)
      | Some routedMessage \<Rightarrow>
          (case pendingRequests sr (GetId routedMessage) of
             None \<Rightarrow> Some (None, sr)
           | Some replyChan \<Rightarrow>
               (case chan_send replyChan routedMessage of
                  None \<Rightarrow> None
                | Some replyChan' \<Rightarrow>
                    Some (None, sr\<lparr>pendingRequests :=
                                     (pendingRequests sr)(GetId routedMessage \<mapsto> replyChan')\<rparr>))))"

text \<open>
  The wait of \<^verbatim>\<open>Route\<close> in its \<^verbatim>\<open>select\<close>. \<open>arrivals\<close> are the bodies that the reply
  subscription hands to the handler before the timeout elapses, in order. The wait is
  over as soon as the waiter's own channel \<open>i\<close> holds a reply, and when the arrivals are
  used up the timer fires. \<open>None\<close>: the handler is waiting on the taken slot of
  another waiter's channel.
\<close>

definition has_reply :: "StandardRouter \<Rightarrow> string \<Rightarrow> bool" where
  "has_reply sr i = (case pendingRequests sr i of None \<Rightarrow> False | Some c \<Rightarrow> buffer c \<noteq> [])"

fun await_reply ::
  "(bytes \<Rightarrow> RoutedMessage option) \<Rightarrow> string \<Rightarrow> bytes list \<Rightarrow> StandardRouter
     \<Rightarrow> StandardRouter option" where
  "await_reply Unmarshal i [] sr = Some sr"
| "await_reply Unmarshal i (body # bodies) sr =
     (case reply_handler Unmarshal body sr of
        None \<Rightarrow> None
      | Some (_, sr') \<Rightarrow>
          if has_reply sr' i then Some sr' else await_reply Unmarshal i bodies sr')"

text \<open>
  \<^verbatim>\<open>Route\<close>, lines 43 to 56, run when the \<^verbatim>\<open>select\<close> resolves: the reply waiting on the
  waiter's channel is taken, and when the timer fires on an empty channel the error is
  \<open>TIMEOUT\<close>; either way the identifier is deleted from the table. \<open>msg\<close> is the stamped
  message of \<open>Route_register\<close>; its channel is the one registered under its identifier.
\<close>

definition Route_collect ::
  "RoutedMessage \<Rightarrow> StandardRouter \<Rightarrow> (RoutedMessage option \<times> route_error option) \<times> StandardRouter" where
  "Route_collect msg sr =
     (let (response, err) =
            (case pendingRequests sr (GetId msg) of
               None \<Rightarrow> (None, Some TIMEOUT)
             | Some responseChan \<Rightarrow>
                 (case chan_recv responseChan of
                    None \<Rightarrow> (None, Some TIMEOUT)
                  | Some (r, _) \<Rightarrow> (Some r, None)))
      in ((response, err), sr\<lparr>pendingRequests := (pendingRequests sr)(GetId msg := None)\<rparr>))"

text \<open>
  One whole call: register, wait, collect. \<open>None\<close>: the reply handler is still waiting
  on another waiter's channel.
\<close>

definition Route ::
  "(RoutedMessage \<Rightarrow> bytes option) \<Rightarrow> (bytes \<Rightarrow> RoutedMessage option) \<Rightarrow> string \<Rightarrow> RoutedMessage
     \<Rightarrow> bytes list \<Rightarrow> StandardRouter
     \<Rightarrow> ((RoutedMessage option \<times> route_error option) \<times> StandardRouter) option" where
  "Route Marshal Unmarshal uuid msg0 arrivals sr =
     (case Route_register Marshal uuid msg0 sr of
        (Inl e, sr') \<Rightarrow> Some ((None, Some e), sr')
      | (Inr msg, sr1) \<Rightarrow>
          (case await_reply Unmarshal (GetId msg) arrivals sr1 of
             None \<Rightarrow> None
           | Some sr2 \<Rightarrow> Some (Route_collect msg sr2)))"

text \<open>
  The goroutine of \<^verbatim>\<open>NewStandardRouter\<close> (lines 93 to 102):
  \<^verbatim>\<open>for i := 0; i <= 100; i++ { subscription.Run(); time.Sleep(...) }; panic(...)\<close>.
  \<open>returns i\<close> says whether the call of \<^verbatim>\<open>Run\<close> in iteration \<open>i\<close> comes back. The result
  is how the goroutine ends, the number of calls of \<^verbatim>\<open>Run\<close>, and the seconds slept after
  each call that returned.
\<close>

datatype goroutine_end = Panicked string | Waiting_in_Run

function run_subscription ::
  "(nat \<Rightarrow> bool) \<Rightarrow> nat \<Rightarrow> nat \<Rightarrow> nat list \<Rightarrow> goroutine_end \<times> nat \<times> nat list" where
  "run_subscription returns i calls sleeps =
     (if i \<le> 100 then
        (if returns i then run_subscription returns (i + 1) (calls + 1) (sleeps @ [i mod 5])
         else (Waiting_in_Run, calls + 1, sleeps))
      else (Panicked ''Final connection died. Respawning...'', calls, sleeps))"
  by pat_completeness auto
termination
  by (relation "measure (\<lambda>(returns, i, calls, sleeps). 101 - i)") auto

declare run_subscription.simps [simp del]

section \<open>The subscription multiplexer (amqp/subscriber.go)\<close>

text \<open>
  An inbound \<^verbatim>\<open>amqp.Delivery\<close>: what the dispatch reads of it is the routing key, next to
  the body it carries.
\<close>

record Delivery =
  RoutingKey :: string
  Body :: bytes

text \<open>
  Modelled from the spec: the \<^verbatim>\<open>subscription\<close> struct, \<^verbatim>\<open>newSubscription\<close> and \<^verbatim>\<open>canHandle\<close>
  are declared elsewhere in package \<^verbatim>\<open>amqp\<close>. A topic subscription has a topic and an
  inbox, a bounded queue of pending deliveries (the channel \<^verbatim>\<open>deliveries\<close>); a free slot
  of the inbox stands for whatever lets the non-blocking send succeed, a receiver that
  is waiting included. Its handler plays no part in the dispatch. The topic filter
  \<^verbatim>\<open>canHandle\<close> is a parameter of everything below.
\<close>

record subscription =
  topic :: string
  deliveries :: "Delivery chan"

text \<open>
  \<^verbatim>\<open>Subscriber\<close>. \<open>started\<close> says that \<^verbatim>\<open>s.started\<close> is a channel (not nil), \<open>quit\<close> that
  the channel \<^verbatim>\<open>s.quit\<close> has been closed.
\<close>

record Subscriber =
  subscriptions :: "subscription list"
  started :: bool
  closed :: bool
  quit :: bool
  queue :: string
  exclusive :: bool
  autoDelete :: bool

text \<open>The calls that \<^verbatim>\<open>run\<close> makes on the broker's side, with the arguments that vary.\<close>

datatype broker_call =
    Dial_call
  | GetChannelInterface_call
  | QueueDeclare_call string bool bool bool
  | QueueBind_call string string string
  | Consume_call string bool
  | Reject_call Delivery bool

text \<open>
  What the broker does in one cycle of the reconnect loop: for each step of the setup its
  error (\<open>None\<close> when it succeeds; binding depends on the topic), and the cases that the
  \<^verbatim>\<open>select\<close> of the dispatch loop takes, in order: a message from \<^verbatim>\<open>msgs\<close>, the
  connection's or the channel's close notification, or \<^verbatim>\<open>s.quit\<close>. The case of \<^verbatim>\<open>s.quit\<close>
  is ready only once that channel has been closed.
\<close>

datatype select_event = Msg Delivery | ConnectionClosed | ChannelInterfaceClosed | Quit

record cycle =
  Dial :: "string option"
  GetChannelInterface :: "string option"
  QueueDeclare :: "string option"
  QueueBind :: "string \<Rightarrow> string option"
  Consume :: "string option"
  events :: "select_event list"

text \<open>
  The errors \<^verbatim>\<open>run\<close> returns: the package's own value \<^verbatim>\<open>subscriberClosed\<close>, or an error
  of the dialer, the connection or the channel.
\<close>

datatype run_error = subscriberClosed | broker_error string

text \<open>
  The inner loop over the subscriptions (lines 104 to 115): every subscription whose
  filter accepts the message is offered it by a non-blocking send, and \<open>handled\<close> is set
  when a send succeeds. There is no \<^verbatim>\<open>break\<close>.
\<close>

fun offer ::
  "(subscription \<Rightarrow> Delivery \<Rightarrow> bool) \<Rightarrow> Delivery \<Rightarrow> subscription list \<Rightarrow> bool
     \<Rightarrow> subscription list \<times> bool" where
  "offer canHandle msg [] handled = ([], handled)"
| "offer canHandle msg (sub # subs) handled =
     (if canHandle sub msg then
        (case chan_send (deliveries sub) msg of
           Some c \<Rightarrow>
             (let (subs', h) = offer canHandle msg subs True
              in (sub\<lparr>deliveries := c\<rparr> # subs', h))
         | None \<Rightarrow>
             (let (subs', h) = offer canHandle msg subs handled in (sub # subs', h)))
      else (let (subs', h) = offer canHandle msg subs handled in (sub # subs', h)))"

text \<open>The case \<^verbatim>\<open>msg := <-msgs\<close> (lines 103 to 119): the subscriber afterwards and the
  calls made on the message.\<close>

definition dispatch ::
  "(subscription \<Rightarrow> Delivery \<Rightarrow> bool) \<Rightarrow> Delivery \<Rightarrow> Subscriber \<Rightarrow> Subscriber \<times> broker_call list" where
  "dispatch canHandle msg s =
     (let (subs', handled) = offer canHandle msg (subscriptions s) False
      in (s\<lparr>subscriptions := subs'\<rparr>, if \<not> handled then [Reject_call msg True] else []))"

text \<open>
  The dispatch loop (lines 101 to 137). \<open>Returned err\<close> is the value \<^verbatim>\<open>run\<close> returns;
  \<open>Blocked_in_select\<close> says that no case of the \<^verbatim>\<open>select\<close> is ready yet.
\<close>

datatype run_result = Returned "run_error option" | Blocked_in_select

fun dispatch_loop ::
  "(subscription \<Rightarrow> Delivery \<Rightarrow> bool) \<Rightarrow> select_event list \<Rightarrow> Subscriber \<Rightarrow> broker_call list
     \<Rightarrow> run_result \<times> broker_call list \<times> Subscriber" where
  "dispatch_loop canHandle [] s calls = (Blocked_in_select, calls, s)"
| "dispatch_loop canHandle (Msg msg # evs) s calls =
     (let (s', rejects) = dispatch canHandle msg s
      in dispatch_loop canHandle evs s' (calls @ rejects))"
| "dispatch_loop canHandle (ConnectionClosed # evs) s calls = (Returned None, calls, s)"
| "dispatch_loop canHandle (ChannelInterfaceClosed # evs) s calls = (Returned None, calls, s)"
| "dispatch_loop canHandle (Quit # evs) s calls =
     (if quit s then (Returned (Some subscriberClosed), calls, s) else (Blocked_in_select, calls, s))"

text \<open>The loop that binds every subscription's topic (lines 72 to 77).\<close>

fun bind_all ::
  "cycle \<Rightarrow> string \<Rightarrow> subscription list \<Rightarrow> broker_call list \<Rightarrow> string option \<times> broker_call list" where
  "bind_all c q [] calls = (None, calls)"
| "bind_all c q (sub # subs) calls =
     (case QueueBind c (topic sub) of
        Some e \<Rightarrow> (Some e, calls @ [QueueBind_call q (topic sub) ''amq.topic''])
      | None \<Rightarrow> bind_all c q subs (calls @ [QueueBind_call q (topic sub) ''amq.topic'']))"

text \<open>
  The setup of \<^verbatim>\<open>run\<close> (lines 43 to 92): dial, open the channel, declare the queue, bind,
  consume. The result is the error of the first step that fails, if any, and the calls
  made.
\<close>

definition connect :: "cycle \<Rightarrow> Subscriber \<Rightarrow> string option \<times> broker_call list" where
  "connect c s =
     (case Dial c of
        Some e \<Rightarrow> (Some e, [Dial_call])
      | None \<Rightarrow>
     (case GetChannelInterface c of
        Some e \<Rightarrow> (Some e, [Dial_call, GetChannelInterface_call])
      | None \<Rightarrow>
     (let durable = (if exclusive s then False else True);
          autoDelete' = (if autoDelete s then True else False);
          calls = [Dial_call, GetChannelInterface_call,
                   QueueDeclare_call (queue s) durable autoDelete' (exclusive s)]
      in case QueueDeclare c of
        Some e \<Rightarrow> (Some e, calls)
      | None \<Rightarrow>
     (case bind_all c (queue s) (subscriptions s) calls of
        (Some e, calls') \<Rightarrow> (Some e, calls')
      | (None, calls') \<Rightarrow>
     (case Consume c of
        Some e \<Rightarrow> (Some e, calls' @ [Consume_call (queue s) (exclusive s)])
      | None \<Rightarrow> (None, calls' @ [Consume_call (queue s) (exclusive s)]))))))"

text \<open>\<^verbatim>\<open>Subscriber.run\<close>: the setup, the release of \<^verbatim>\<open>s.started\<close>, the dispatch loop.\<close>

definition run ::
  "(subscription \<Rightarrow> Delivery \<Rightarrow> bool) \<Rightarrow> cycle \<Rightarrow> Subscriber
     \<Rightarrow> run_result \<times> broker_call list \<times> Subscriber" where
  "run canHandle c s =
     (case connect c s of
        (Some e, calls) \<Rightarrow> (Returned (Some (broker_error e)), calls, s)
      | (None, calls) \<Rightarrow>
          dispatch_loop canHandle (events c) (if started s then s\<lparr>started := False\<rparr> else s) calls)"

text \<open>
  The goroutine of \<^verbatim>\<open>Subscriber.Run\<close> (lines 145 to 158): it calls \<^verbatim>\<open>run\<close> again and again
  and returns only when \<^verbatim>\<open>run\<close> returns \<^verbatim>\<open>subscriberClosed\<close>. The broker's behaviour is
  given cycle by cycle. The result: where the goroutine is when the given cycles are
  used up, how many times it has called \<^verbatim>\<open>run\<close>, the calls made, the subscriber.
\<close>

datatype goroutine_state = Stopped | About_to_retry | In_select

fun Run_loop ::
  "(subscription \<Rightarrow> Delivery \<Rightarrow> bool) \<Rightarrow> cycle list \<Rightarrow> Subscriber \<Rightarrow> nat \<Rightarrow> broker_call list
     \<Rightarrow> goroutine_state \<times> nat \<times> broker_call list \<times> Subscriber" where
  "Run_loop canHandle [] s n trace = (About_to_retry, n, trace, s)"
| "Run_loop canHandle (c # cs) s n trace =
     (case run canHandle c s of
        (Blocked_in_select, calls, s') \<Rightarrow> (In_select, n + 1, trace @ calls, s')
      | (Returned err, calls, s') \<Rightarrow>
          (case err of
             None \<Rightarrow> Run_loop canHandle cs s' (n + 1) (trace @ calls)
           | Some e \<Rightarrow>
               if e = subscriberClosed then (Stopped, n + 1, trace @ calls, s')
               else Run_loop canHandle cs s' (n + 1) (trace @ calls)))"

text \<open>\<^verbatim>\<open>Subscriber.Run\<close>: make \<^verbatim>\<open>s.started\<close>, start the goroutine.\<close>

definition Run ::
  "(subscription \<Rightarrow> Delivery \<Rightarrow> bool) \<Rightarrow> cycle list \<Rightarrow> Subscriber
     \<Rightarrow> goroutine_state \<times> nat \<times> broker_call list \<times> Subscriber" where
  "Run canHandle cs s = Run_loop canHandle cs (s\<lparr>started := True\<rparr>) 0 []"

text \<open>\<^verbatim>\<open>Subscribe\<close> appends a new subscription; \<open>n\<close> is the capacity of its inbox.\<close>

definition Subscribe :: "nat \<Rightarrow> string \<Rightarrow> Subscriber \<Rightarrow> Subscriber" where
  "Subscribe n t s = s\<lparr>subscriptions := subscriptions s @ [\<lparr>topic = t, deliveries = make_chan n\<rparr>]\<rparr>"

definition NewSubscriber :: "string \<Rightarrow> Subscriber" where
  "NewSubscriber q =
     \<lparr>subscriptions = [], started = False, closed = False, quit = False, queue = q,
      exclusive = False, autoDelete = False\<rparr>"

text \<open>
  Two notions used to state what the dispatch does: a subscription receives a message
  when its filter accepts it and its inbox has a free slot, and then the message is
  appended to its inbox.
\<close>

definition receives :: "(subscription \<Rightarrow> Delivery \<Rightarrow> bool) \<Rightarrow> Delivery \<Rightarrow> subscription \<Rightarrow> bool" where
  "receives canHandle msg sub =
     (canHandle sub msg \<and> length (buffer (deliveries sub)) < capacity (deliveries sub))"

definition enqueue :: "Delivery \<Rightarrow> subscription \<Rightarrow> subscription" where
  "enqueue msg sub = sub\<lparr>deliveries := (deliveries sub)\<lparr>buffer := buffer (deliveries sub) @ [msg]\<rparr>\<rparr>"


text \<open>
  Inputs for the concrete runs of the multiplexer: a filter that compares the topic with
  the routing key, a message, a subscriber with the topic \<open>a.1\<close> registered twice and
  \<open>b.1\<close> once, and three cycles: the dial fails, the connection is lost after one
  message, the close signal is taken after one message.
\<close>

definition topic_equals :: "subscription \<Rightarrow> Delivery \<Rightarrow> bool" where
  "topic_equals sub msg = (topic sub = RoutingKey msg)"

definition msg_a1 :: Delivery where
  "msg_a1 = \<lparr>RoutingKey = ''a.1'', Body = ''x''\<rparr>"

definition subscriber_a_a_b :: Subscriber where
  "subscriber_a_a_b = Subscribe 1 ''b.1'' (Subscribe 1 ''a.1'' (Subscribe 1 ''a.1'' (NewSubscriber ''q'')))"





definition failing_Marshal :: "RoutedMessage \<Rightarrow> bytes option" where
  "failing_Marshal m = None"

definition id_Unmarshal :: "bytes \<Rightarrow> RoutedMessage option" where
  "id_Unmarshal b =
     (if b = [] then None
      else Some \<lparr>rm_Id = Some b, rm_ReplyTopic = None, rm_Method = None, rm_Resource = None,
                 rm_Body = None\<rparr>)"

definition request_7_3 :: RoutedMessage where
  "request_7_3 =
     \<lparr>rm_Id = None, rm_ReplyTopic = None, rm_Method = Some 7, rm_Resource = Some 3,
      rm_Body = Some ''ping''\<rparr>"

definition router_with_waiter :: StandardRouter where
  "router_with_waiter =
     \<lparr>published = [], router_topic = ''router_r'',
      pendingRequests = Map.empty(''w1'' \<mapsto> make_chan 1)\<rparr>"

section \<open>Messages of the handler execution wrapper (the message declarations of unnamed/part_000)\<close>

text \<open>
  The generated message types, with the Go names of their fields. An optional field
  that is not set is \<open>None\<close> (a nil pointer in Go: \<^verbatim>\<open>response.Routing\<close> may be nil); a
  repeated field is a list. The entries of a repeated field are taken to be non-nil.
\<close>

datatype Version = V4 | V6

record IpAddress =
  Address :: "string option"
  IpVersion :: "Version option"

record Route =
  Uri :: "string option"
  RouteIpAddress :: "IpAddress option"

record Routing =
  RouteTo :: "Route list"
  RouteFrom :: "Route list"

record Trace =
  TraceUuid :: "string option"
  TraceName :: "string option"
  SpanUuid :: "string option"
  ParentSpanUuid :: "string option"
  StartTime :: "string option"
  EndTime :: "string option"

record Request =
  Uuid :: "string option"
  Routing :: "Routing option"
  Context :: "bytes option"
  Payload :: "bytes option"
  Completed :: "bool option"
  RequestTrace :: "Trace option"


definition GetUuid :: "Request \<Rightarrow> string" where
  "GetUuid r = (case Uuid r of None \<Rightarrow> [] | Some u \<Rightarrow> u)"

definition GetCompleted :: "Request \<Rightarrow> bool" where
  "GetCompleted r = (case Completed r of None \<Rightarrow> False | Some b \<Rightarrow> b)"

definition GetUri :: "Route \<Rightarrow> string" where
  "GetUri r = (case Uri r of None \<Rightarrow> [] | Some u \<Rightarrow> u)"

section \<open>The courier (unnamed/part_001, lines 22 to 63)\<close>

text \<open>
  What the courier and the wrapper act on: the replies waiting in the courier's channel
  \<^verbatim>\<open>responses\<close>, oldest first; the calls \<^verbatim>\<open>Publish(topic, body)\<close> made on the publisher;
  and the lines the courier logged. The channel holds ten replies; a send on the full
  channel waits until the courier's goroutine has taken one, and since that goroutine
  takes them in order, the order of what is published is that of an unbounded queue,
  which is what the list is.
\<close>

datatype log_line =
    Sending_FINAL string string
  | Sending_INTERMEDIARY string string
  | Publishing_response Request
  | Failed_to_marshal_response
  | Published_response_successfully

record world =
  responses :: "Request list"
  publisher_calls :: "(string \<times> bytes) list"
  logged :: "log_line list"

text \<open>The run-time panics of Go that the code below can raise.\<close>

datatype fault = nil_pointer_dereference | index_out_of_range

text \<open>
  \<^verbatim>\<open>Courier.Send\<close>: the log line reads \<^verbatim>\<open>response.Routing.RouteTo[0].GetUri()\<close> before the
  reply is put on the channel.
\<close>

definition Courier_Send :: "Request \<Rightarrow> world \<Rightarrow> fault + world" where
  "Courier_Send response w =
     (case Routing response of
        None \<Rightarrow> Inl nil_pointer_dereference
      | Some r \<Rightarrow>
          (case RouteTo r of
             [] \<Rightarrow> Inl index_out_of_range
           | first # _ \<Rightarrow>
               Inr (w\<lparr>logged := logged w @
                         [if GetCompleted response
                          then Sending_FINAL (GetUuid response) (GetUri first)
                          else Sending_INTERMEDIARY (GetUuid response) (GetUri first)],
                       responses := responses w @ [response]\<rparr>)))"





section \<open>The heartbeat courier (unnamed/part_001, lines 65 to 105)\<close>




text \<open>
  One heartbeat courier: the channel \<^verbatim>\<open>quit\<close> (one slot), where the emitter goroutine
  stands, and the reply that a call of \<^verbatim>\<open>RequestHeartbeatCourier.Send\<close> is about to hand to
  its parent, if a call is under way. The emitter is in its \<^verbatim>\<open>select\<close>, or has taken the
  timer case and is about to call \<^verbatim>\<open>parent.Send\<close>, or has returned.
\<close>

datatype emitter_pc = At_select | Sending_heartbeat | Emitter_returned

record rhc_state =
  rhc_quit :: "bool chan"
  emitter :: emitter_pc
  handler_in_Send :: "Request option"


text \<open>
  The atomic steps of the two goroutines. The emitter: its timer fires while it waits in
  the \<^verbatim>\<open>select\<close> and no quit signal is there to be taken; it hands the heartbeat to the
  parent; it takes the quit signal and returns. The caller of \<^verbatim>\<open>Send\<close>: it puts the quit
  signal on the channel when the reply is completed (it waits while the slot is taken),
  then hands the reply to the parent. The parent is the courier. A step that is not
  enabled is \<open>None\<close>; a step whose \<^verbatim>\<open>Courier.Send\<close> panics is \<open>Some (Inl f)\<close>.
\<close>

datatype rhc_event = Timer_fires | Emitter_sends | Emitter_quits | Send_begins Request | Send_forwards

definition rhc_step ::
  "Request \<Rightarrow> rhc_event \<Rightarrow> rhc_state \<times> world \<Rightarrow> (fault + rhc_state \<times> world) option" where
  "rhc_step heartbeat ev st =
     (let (h, w) = st in
      case ev of
        Timer_fires \<Rightarrow>
          if emitter h = At_select \<and> buffer (rhc_quit h) = []
          then Some (Inr (h\<lparr>emitter := Sending_heartbeat\<rparr>, w)) else None
      | Emitter_sends \<Rightarrow>
          if emitter h = Sending_heartbeat
          then Some (case Courier_Send heartbeat w of
                       Inl f \<Rightarrow> Inl f
                     | Inr w' \<Rightarrow> Inr (h\<lparr>emitter := At_select\<rparr>, w'))
          else None
      | Emitter_quits \<Rightarrow>
          if emitter h = At_select
          then (case chan_recv (rhc_quit h) of
                  None \<Rightarrow> None
                | Some (_, c) \<Rightarrow> Some (Inr (h\<lparr>rhc_quit := c, emitter := Emitter_returned\<rparr>, w)))
          else None
      | Send_begins response \<Rightarrow>
          if handler_in_Send h \<noteq> None then None
          else if GetCompleted response
          then (case chan_send (rhc_quit h) True of
                  None \<Rightarrow> None
                | Some c \<Rightarrow> Some (Inr (h\<lparr>rhc_quit := c, handler_in_Send := Some response\<rparr>, w)))
          else Some (Inr (h\<lparr>handler_in_Send := Some response\<rparr>, w))
      | Send_forwards \<Rightarrow>
          (case handler_in_Send h of
             None \<Rightarrow> None
           | Some response \<Rightarrow>
               Some (case Courier_Send response w of
                       Inl f \<Rightarrow> Inl f
                     | Inr w' \<Rightarrow> Inr (h\<lparr>handler_in_Send := None\<rparr>, w'))))"

text \<open>A schedule: the steps of the two goroutines in the order in which they happen.\<close>

fun rhc_run ::
  "Request \<Rightarrow> rhc_event list \<Rightarrow> rhc_state \<times> world \<Rightarrow> (fault + rhc_state \<times> world) option" where
  "rhc_run heartbeat [] st = Some (Inr st)"
| "rhc_run heartbeat (ev # evs) st =
     (case rhc_step heartbeat ev st of
        None \<Rightarrow> None
      | Some (Inl f) \<Rightarrow> Some (Inl f)
      | Some (Inr st') \<Rightarrow> rhc_run heartbeat evs st')"


section \<open>The wrapper of AddHandler (unnamed/part_001, lines 142 to 179)\<close>

text \<open>
  \<^verbatim>\<open>rhc.quit <- true\<close> as the caller of \<^verbatim>\<open>Send\<close> sees it, with the emitter's part folded
  in. With a free slot the signal is put there. With the slot taken the send waits for
  the emitter: the emitter's \<^verbatim>\<open>select\<close> takes the waiting signal and the emitter returns,
  and the send fills the slot again. Once the emitter has returned nobody receives from
  the channel, and a send on the taken slot waits for ever (\<open>None\<close>).
\<close>

definition signal_quit :: "rhc_state \<Rightarrow> rhc_state option" where
  "signal_quit h =
     (case chan_send (rhc_quit h) True of
        Some c \<Rightarrow> Some (h\<lparr>rhc_quit := c\<rparr>)
      | None \<Rightarrow>
          if emitter h = Emitter_returned then None
          else
            (case chan_recv (rhc_quit h) of
               None \<Rightarrow> None
             | Some (_, c) \<Rightarrow>
                 (case chan_send c True of
                    None \<Rightarrow> None
                  | Some c' \<Rightarrow> Some (h\<lparr>rhc_quit := c', emitter := Emitter_returned\<rparr>))))"

text \<open>
  \<^verbatim>\<open>RequestHeartbeatCourier.Send\<close>, run to its end by its caller. The heartbeats that the
  emitter sends in the meantime are left out of this sequential run.
\<close>

datatype send_outcome = Sent | Send_panics fault | Send_waits_for_ever

definition rhc_Send :: "Request \<Rightarrow> rhc_state \<times> world \<Rightarrow> send_outcome \<times> rhc_state \<times> world" where
  "rhc_Send response st =
     (let (h, w) = st in
      case (if GetCompleted response then signal_quit h else Some h) of
        None \<Rightarrow> (Send_waits_for_ever, h, w)
      | Some h' \<Rightarrow>
          (case Courier_Send response w of
             Inl f \<Rightarrow> (Send_panics f, h', w)
           | Inr w' \<Rightarrow> (Sent, h', w')))"










text \<open>\<^verbatim>\<open>AddHandler\<close> subscribes that function to the topic derived from the path.\<close>

definition AddHandler_topic :: "string \<Rightarrow> string" where
  "AddHandler_topic path = ''microservice-'' @ path"

section \<open>The in-flight work counter and the shutdown (unnamed/part_001, lines 14 to 20 and 185 to 213)\<close>

text \<open>
  Modelled from the spec: the functions that increment and decrement
  \<^verbatim>\<open>consumedWorkCount\<close>, and \<^verbatim>\<open>getConsumerWorkCount\<close>, are declared elsewhere in the
  package; \<^verbatim>\<open>unnamed/part_001\<close> declares the counter and its mutex, and \<^verbatim>\<open>Service.Run\<close> calls
  \<^verbatim>\<open>getConsumerWorkCount\<close>. After the spec, the counter is incremented when a handler
  invocation begins and decremented when it ends, and \<^verbatim>\<open>getConsumerWorkCount\<close> reads it.
  \<open>in_flight\<close> counts the invocations that have begun and not ended; it is there to say
  that only an invocation that has begun can end.

  From \<^verbatim>\<open>Service.Run\<close>: the goroutine that waits for a termination signal, then clears
  \<^verbatim>\<open>stillConsuming\<close> and polls the counter until it reads less than one, then sleeps
  500 ms and exits the process.
\<close>

datatype shutdown_pc = Waiting_for_signal | Polling | Sleeping_before_exit | Exited

record service_state =
  stillConsuming :: bool
  consumedWorkCount :: int
  shutdown :: shutdown_pc
  in_flight :: nat

definition Service_Run :: service_state where
  "Service_Run =
     \<lparr>stillConsuming = True, consumedWorkCount = 0, shutdown = Waiting_for_signal, in_flight = 0\<rparr>"

definition getConsumerWorkCount :: "service_state \<Rightarrow> int" where
  "getConsumerWorkCount s = consumedWorkCount s"

datatype service_event = Handler_begins | Handler_ends | Signal | Poll | Exit

definition service_step :: "service_event \<Rightarrow> service_state \<Rightarrow> service_state option" where
  "service_step ev s =
     (if shutdown s = Exited then None
      else case ev of
        Handler_begins \<Rightarrow>
          Some (s\<lparr>consumedWorkCount := consumedWorkCount s + 1, in_flight := in_flight s + 1\<rparr>)
      | Handler_ends \<Rightarrow>
          if in_flight s = 0 then None
          else Some (s\<lparr>consumedWorkCount := consumedWorkCount s - 1, in_flight := in_flight s - 1\<rparr>)
      | Signal \<Rightarrow>
          if shutdown s = Waiting_for_signal
          then Some (s\<lparr>stillConsuming := False, shutdown := Polling\<rparr>) else None
      | Poll \<Rightarrow>
          if shutdown s = Polling
          then Some (if getConsumerWorkCount s < 1 then s\<lparr>shutdown := Sleeping_before_exit\<rparr> else s)
          else None
      | Exit \<Rightarrow>
          if shutdown s = Sleeping_before_exit then Some (s\<lparr>shutdown := Exited\<rparr>) else None)"

fun service_run :: "service_event list \<Rightarrow> service_state \<Rightarrow> service_state option" where
  "service_run [] s = Some s"
| "service_run (ev # evs) s =
     (case service_step ev s of None \<Rightarrow> None | Some s' \<Rightarrow> service_run evs s')"













section \<open>Properties of the correlation router\<close>









text \<open>
  Claim C8. When the reply subscription delivers a body that does not decode, or whose
  identifier has no entry in the pending-request table, the handler returns the nil
  error and the router is exactly as before: the table is not modified and no waiter's
  channel receives anything.
\<close>

theorem unknown_reply_discarded:
  assumes "\<And>m. Unmarshal body = Some m \<Longrightarrow> pendingRequests sr (GetId m) = None"
  shows "reply_handler Unmarshal body sr = Some (None, sr)"
  using assms by (auto simp: reply_handler_def split: option.splits)

theorem unknown_reply_discarded_witness:
  "reply_handler id_Unmarshal ''late'' router_with_waiter = Some (None, router_with_waiter)"
  using unknown_reply_discarded [of id_Unmarshal "''late''" router_with_waiter]
  by (simp add: id_Unmarshal_def GetId_def router_with_waiter_def)

text \<open>
  Claim C9. When the serialisation of the stamped request fails, \<open>Route\<close> returns the
  error \<open>MARSHAL_ERROR\<close> and no reply, and the router is exactly as before the call:
  nothing was published and no waiter was registered.
\<close>

theorem Route_marshal_failure:
  assumes "Marshal (request\<lparr>rm_Id := Some fresh, rm_ReplyTopic := Some (router_topic sr)\<rparr>) = None"
  shows "Route Marshal Unmarshal fresh request arrivals sr = Some ((None, Some MARSHAL_ERROR), sr)"
  using assms by (simp add: Route_def Route_register_def)

theorem Route_marshal_failure_witness:
  "Route failing_Marshal id_Unmarshal ''u1'' request_7_3 [''u1''] router_with_waiter =
     Some ((None, Some MARSHAL_ERROR), router_with_waiter)"
  using Route_marshal_failure [where Marshal = failing_Marshal and request = request_7_3
      and fresh = "''u1''" and sr = router_with_waiter and Unmarshal = id_Unmarshal
      and arrivals = "[''u1'']"]
  by (simp add: failing_Marshal_def)

lemma run_subscription_unfold:
  "run_subscription returns i c sleeps = (e, calls, sl) \<longleftrightarrow>
     (if i \<le> 100 then
        (if returns i then run_subscription returns (i + 1) (c + 1) (sleeps @ [i mod 5]) = (e, calls, sl)
         else e = Waiting_in_Run \<and> calls = c + 1 \<and> sl = sleeps)
      else e = Panicked ''Final connection died. Respawning...'' \<and> calls = c \<and> sl = sleeps)"
  by (subst run_subscription.simps) auto

lemma run_subscription_from:
  "i \<le> 101 \<Longrightarrow> c = i \<Longrightarrow> run_subscription returns i c sleeps = (e, calls, sl) \<Longrightarrow>
     calls \<le> 101 \<and>
     (e = Waiting_in_Run \<or> (e = Panicked ''Final connection died. Respawning...'' \<and> calls = 101)) \<and>
     ((\<forall>j. i \<le> j \<and> j \<le> 100 \<longrightarrow> returns j) \<longleftrightarrow> e \<noteq> Waiting_in_Run)"
proof (induction returns i c sleeps rule: run_subscription.induct)
  case (1 returns i c sleeps)
  note run = "1.prems"(3) [unfolded run_subscription_unfold [of returns i c sleeps]]
  show ?case
  proof (cases "i \<le> 100")
    case False
    with "1.prems" have "i = 101" by simp
    with run "1.prems"(2) show ?thesis by auto
  next
    case le: True
    show ?thesis
    proof (cases "returns i")
      case False
      with le run "1.prems"(2) have "e = Waiting_in_Run" "calls = i + 1" by simp_all
      with le False show ?thesis by auto
    next
      case True
      with le run have rec: "run_subscription returns (i + 1) (c + 1) (sleeps @ [i mod 5]) = (e, calls, sl)"
        by simp
      have ih: "calls \<le> 101 \<and>
     (e = Waiting_in_Run \<or> (e = Panicked ''Final connection died. Respawning...'' \<and> calls = 101)) \<and>
     ((\<forall>j. i + 1 \<le> j \<and> j \<le> 100 \<longrightarrow> returns j) \<longleftrightarrow> e \<noteq> Waiting_in_Run)"
        using "1.IH" [OF le True] le rec "1.prems"(2) by simp
      have "(\<forall>j. i \<le> j \<and> j \<le> 100 \<longrightarrow> returns j) \<longleftrightarrow> (\<forall>j. i + 1 \<le> j \<and> j \<le> 100 \<longrightarrow> returns j)"
      proof
        assume "\<forall>j. i \<le> j \<and> j \<le> 100 \<longrightarrow> returns j"
        then show "\<forall>j. i + 1 \<le> j \<and> j \<le> 100 \<longrightarrow> returns j" by simp
      next
        assume a: "\<forall>j. i + 1 \<le> j \<and> j \<le> 100 \<longrightarrow> returns j"
        show "\<forall>j. i \<le> j \<and> j \<le> 100 \<longrightarrow> returns j"
        proof (intro allI impI)
          fix j assume "i \<le> j \<and> j \<le> 100"
          then have "j = i \<or> (i + 1 \<le> j \<and> j \<le> 100)" by arith
          with a True show "returns j" by blast
        qed
      qed
      with ih show ?thesis by simp
    qed
  qed
qed

text \<open>
  Claim C10. The goroutine that runs the router's reply subscription calls \<open>Run\<close> at most
  101 times. It ends in one of two ways only: waiting inside a call of \<open>Run\<close> that has
  not come back, or, exactly when all 101 calls came back, by the panic
  \<open>Final connection died. Respawning...\<close>; there is no further retry and no error value.
\<close>

theorem subscription_goroutine_bound:
  assumes "run_subscription returns 0 0 [] = (e, calls, sleeps)"
  shows "calls \<le> 101 \<and>
         (e = Waiting_in_Run \<or> (e = Panicked ''Final connection died. Respawning...'' \<and> calls = 101)) \<and>
         ((\<forall>j\<le>100. returns j) \<longleftrightarrow> e = Panicked ''Final connection died. Respawning...'')"
  using run_subscription_from [OF _ _ assms] by auto

theorem subscription_goroutine_bound_witness:
  "run_subscription (\<lambda>i. True) 0 0 [] =
     (Panicked ''Final connection died. Respawning...'', 101,
      concat (replicate 20 [0, 1, 2, 3, 4]) @ [0])"
proof -
  have run: "run_subscription (\<lambda>i. True) 0 0 [] =
     (Panicked ''Final connection died. Respawning...'', 101,
      concat (replicate 20 [0, 1, 2, 3, 4]) @ [0])"
    by code_simp
  from subscription_goroutine_bound [OF run] run show ?thesis by simp
qed

section \<open>Properties of the subscription multiplexer\<close>

lemma offer_all:
  "offer canHandle msg subs handled =
     (map (\<lambda>sub. if receives canHandle msg sub then enqueue msg sub else sub) subs,
      handled \<or> (\<exists>sub\<in>set subs. receives canHandle msg sub))"
  by (induction subs arbitrary: handled)
     (auto simp: receives_def enqueue_def chan_send_def split: option.splits if_splits)

text \<open>
  Claim C1, as the code has it. The dispatch offers an inbound message, in registration
  order, to every subscription whose topic filter accepts it: each of them whose inbox
  has a free slot receives it, the first as well as every later one, and all other
  inboxes are unchanged. The message is rejected with a requeue request exactly when no
  subscription received it; in particular when no filter accepts it.
\<close>

theorem dispatch_delivers_to_every_match:
  "dispatch canHandle msg s =
     (s\<lparr>subscriptions :=
          map (\<lambda>sub. if receives canHandle msg sub then enqueue msg sub else sub) (subscriptions s)\<rparr>,
      if \<exists>sub\<in>set (subscriptions s). receives canHandle msg sub then []
      else [Reject_call msg True])"
  by (simp add: dispatch_def offer_all)

theorem dispatch_delivers_to_every_match_witness:
  "dispatch topic_equals msg_a1 subscriber_a_a_b =
     (subscriber_a_a_b\<lparr>subscriptions :=
        [\<lparr>topic = ''a.1'', deliveries = \<lparr>buffer = [msg_a1], capacity = 1\<rparr>\<rparr>,
         \<lparr>topic = ''a.1'', deliveries = \<lparr>buffer = [msg_a1], capacity = 1\<rparr>\<rparr>,
         \<lparr>topic = ''b.1'', deliveries = \<lparr>buffer = [], capacity = 1\<rparr>\<rparr>]\<rparr>, []) \<and>
   snd (dispatch topic_equals (msg_a1\<lparr>RoutingKey := ''c.1''\<rparr>) subscriber_a_a_b) =
     [Reject_call (msg_a1\<lparr>RoutingKey := ''c.1''\<rparr>) True]"
  using dispatch_delivers_to_every_match [of topic_equals msg_a1 subscriber_a_a_b]
    dispatch_delivers_to_every_match [of topic_equals "msg_a1\<lparr>RoutingKey := ''c.1''\<rparr>" subscriber_a_a_b]
  by (simp add: subscriber_a_a_b_def Subscribe_def NewSubscriber_def make_chan_def receives_def
      enqueue_def topic_equals_def msg_a1_def)

text \<open>
  Claim C1 as stated fails: with the topic \<open>a.1\<close> registered twice, a message with that
  routing key is delivered to the first subscription and to the second one as well.
\<close>

theorem dispatch_first_match_only_counterexample:
  "map (\<lambda>sub. (topic sub, buffer (deliveries sub)))
       (subscriptions (fst (dispatch topic_equals msg_a1 subscriber_a_a_b))) =
     [(''a.1'', [msg_a1]), (''a.1'', [msg_a1]), (''b.1'', [])]"
  by (simp add: dispatch_def subscriber_a_a_b_def Subscribe_def NewSubscriber_def make_chan_def
      chan_send_def topic_equals_def msg_a1_def)






lemma run_started_quit: "quit (if started s then s\<lparr>started := False\<rparr> else s) = quit s"
  by simp








section \<open>Properties of the courier\<close>




section \<open>Properties of the heartbeat courier\<close>










section \<open>Properties of the wrapper of AddHandler\<close>

text \<open>A call of \<open>Send\<close> run to its end is a schedule of the atomic steps.\<close>

lemma rhc_Send_is_a_schedule:
  assumes "rhc_Send response (h, w) = (Sent, h', w')"
    and "handler_in_Send h = None" and "emitter h = At_select \<or> emitter h = Emitter_returned"
  shows "rhc_run hb [Send_begins response, Send_forwards] (h, w) = Some (Inr (h', w')) \<or>
         rhc_run hb [Emitter_quits, Send_begins response, Send_forwards] (h, w) = Some (Inr (h', w'))"
  using assms
  by (auto simp: rhc_Send_def rhc_step_def signal_quit_def
           split: if_splits option.splits sum.splits prod.splits)








section \<open>Properties of the in-flight work counter\<close>

lemma service_step_counter:
  assumes "service_step ev s = Some s'" and "consumedWorkCount s = int (in_flight s)"
  shows "consumedWorkCount s' = int (in_flight s')"
  using assms
  by (cases ev) (auto simp: service_step_def split: if_splits)

lemma service_run_counter:
  assumes "service_run evs s = Some s'" and "consumedWorkCount s = int (in_flight s)"
  shows "consumedWorkCount s' = int (in_flight s')"
  using assms
proof (induction evs arbitrary: s)
  case Nil
  then show ?case by simp
next
  case (Cons ev evs)
  from Cons.prems(1) obtain s1 where st: "service_step ev s = Some s1"
    and r: "service_run evs s1 = Some s'"
    by (auto split: option.splits)
  from service_step_counter [OF st Cons.prems(2)] Cons.IH [OF r] show ?case by simp
qed

lemma service_step_phase:
  assumes "service_step ev s = Some s'"
    and "shutdown s = Waiting_for_signal \<or> shutdown s = Polling"
    and "\<not> (ev = Poll \<and> shutdown s = Polling \<and> getConsumerWorkCount s < 1)"
  shows "shutdown s' = Waiting_for_signal \<or> shutdown s' = Polling"
  using assms
  by (cases ev) (auto simp: service_step_def split: if_splits)

lemma service_run_drained:
  assumes "service_run evs s = Some s'"
    and "shutdown s = Waiting_for_signal \<or> shutdown s = Polling"
    and "consumedWorkCount s = int (in_flight s)"
    and "shutdown s' = Sleeping_before_exit \<or> shutdown s' = Exited"
  shows "\<exists>pre post s1. evs = pre @ Poll # post \<and> service_run pre s = Some s1 \<and>
           shutdown s1 = Polling \<and> consumedWorkCount s1 = 0 \<and> in_flight s1 = 0"
  using assms
proof (induction evs arbitrary: s)
  case Nil
  then show ?case by auto
next
  case (Cons ev evs)
  from Cons.prems(1) obtain s1 where st: "service_step ev s = Some s1"
    and r: "service_run evs s1 = Some s'"
    by (auto split: option.splits)
  show ?case
  proof (cases "ev = Poll \<and> shutdown s = Polling \<and> getConsumerWorkCount s < 1")
    case True
    then have "consumedWorkCount s = 0 \<and> in_flight s = 0"
      using Cons.prems(3) by (simp add: getConsumerWorkCount_def)
    with True have "ev # evs = [] @ Poll # evs \<and> service_run [] s = Some s \<and>
        shutdown s = Polling \<and> consumedWorkCount s = 0 \<and> in_flight s = 0"
      by simp
    then show ?thesis by blast
  next
    case False
    have ph: "shutdown s1 = Waiting_for_signal \<or> shutdown s1 = Polling"
      using service_step_phase [OF st Cons.prems(2) False] .
    have cnt: "consumedWorkCount s1 = int (in_flight s1)"
      using service_step_counter [OF st Cons.prems(3)] .
    from Cons.IH [OF r ph cnt Cons.prems(4)]
    obtain pre post s2 where e: "evs = pre @ Poll # post" and p: "service_run pre s1 = Some s2"
      and z: "shutdown s2 = Polling \<and> consumedWorkCount s2 = 0 \<and> in_flight s2 = 0"
      by blast
    have "ev # evs = (ev # pre) @ Poll # post \<and> service_run (ev # pre) s = Some s2"
      using e p st by simp
    with z show ?thesis by blast
  qed
qed

text \<open>
  Claim C3. In every run of handler invocations, the termination signal and the polling
  goroutine, the in-flight work counter is the number of invocations that have begun
  and not ended, hence never negative; and when the process has exited, a poll after the
  signal found the counter at zero, with no invocation in flight.
\<close>

theorem counter_gates_shutdown:
  assumes "service_run evs Service_Run = Some s"
  shows "0 \<le> consumedWorkCount s \<and> consumedWorkCount s = int (in_flight s) \<and>
         (shutdown s = Exited \<longrightarrow>
            (\<exists>pre post s1. evs = pre @ Poll # post \<and> service_run pre Service_Run = Some s1 \<and>
               shutdown s1 = Polling \<and> consumedWorkCount s1 = 0 \<and> in_flight s1 = 0))"
proof -
  have c: "consumedWorkCount s = int (in_flight s)"
    using service_run_counter [OF assms] by (simp add: Service_Run_def)
  have "\<exists>pre post s1. evs = pre @ Poll # post \<and> service_run pre Service_Run = Some s1 \<and>
               shutdown s1 = Polling \<and> consumedWorkCount s1 = 0 \<and> in_flight s1 = 0"
    if "shutdown s = Exited"
    using service_run_drained [OF assms] that by (simp add: Service_Run_def)
  with c show ?thesis by simp
qed

theorem counter_gates_shutdown_witness:
  "service_run [Handler_begins, Handler_begins, Handler_begins, Signal, Poll, Handler_ends, Poll,
                Handler_ends, Handler_ends, Poll, Exit] Service_Run =
     Some \<lparr>stillConsuming = False, consumedWorkCount = 0, shutdown = Exited, in_flight = 0\<rparr> \<and>
   service_run [Handler_begins, Handler_begins, Handler_begins, Signal, Poll, Handler_ends, Poll,
                Handler_ends, Poll, Exit] Service_Run = None"
proof -
  have run: "service_run [Handler_begins, Handler_begins, Handler_begins, Signal, Poll, Handler_ends,
                Poll, Handler_ends, Handler_ends, Poll, Exit] Service_Run =
     Some \<lparr>stillConsuming = False, consumedWorkCount = 0, shutdown = Exited, in_flight = 0\<rparr>"
    by (simp add: service_step_def Service_Run_def getConsumerWorkCount_def)
  have no: "service_run [Handler_begins, Handler_begins, Handler_begins, Signal, Poll, Handler_ends,
                Poll, Handler_ends, Poll, Exit] Service_Run = None"
    by (simp add: service_step_def Service_Run_def getConsumerWorkCount_def)
  from counter_gates_shutdown [OF run] run no show ?thesis by simp
qed

end
